theory Spec2Isabelle
  imports Main
begin

section \<open>Values, objects and thrown errors\<close>

text \<open>
  The services are TypeScript classes working on plain JavaScript objects. A value is
  kept symbolic: the code under study never computes on a number or a string, it only
  copies, compares and stores them. Numbers are therefore integers here. An object is
  the list of its properties; where a key occurs twice the first occurrence is the
  property. Reading a property that an object does not have yields \<open>JUndefined\<close>,
  as in JavaScript.
\<close>

datatype jsval =
    JUndefined
  | JNull
  | JStr string
  | JNum int
  | JObj "(string \<times> jsval) list"

type_synonym object = "(string \<times> jsval) list"

definition get_prop :: "object \<Rightarrow> string \<Rightarrow> jsval" where
  "get_prop obj k = (case map_of obj k of None \<Rightarrow> JUndefined | Some v \<Rightarrow> v)"

text \<open>
  What a rejected promise carries. \<open>MedusaError\<close> is the error class of the utility
  package with its type tag and message: the services use the tag \<open>NOT_FOUND\<close> only,
  any other tag of the class is kept by its name. \<open>Error\<close> is the plain JavaScript
  error with its message. \<open>StorageFailure\<close> is a failure thrown by the storage
  layer, a constraint violation or a connection error, passed on as it is.
\<close>

datatype MedusaErrorTypes = NOT_FOUND | OtherType string

datatype storage_failure = ConstraintViolation string | ConnectionError string

datatype thrown =
    MedusaError MedusaErrorTypes string
  | Error string
  | StorageFailure storage_failure


section \<open>Query configuration\<close>

text \<open>
  The config of a query, with the three properties the services name in their defaults:
  how many records to skip, how many to take (\<open>take_opt\<close> here) and which relations
  to load. Each of them may be left out.
\<close>

record FindConfig =
  skip :: "nat option"
  take_opt :: "nat option"
  relations :: "string list option"


section \<open>SalesChannelService\<close>

text \<open>
  Every method body of the class is the single statement
  \<^verbatim>\<open>throw new Error("Method not implemented.")\<close>: the returned promise is rejected
  whatever the arguments are. An optional parameter is an \<open>option\<close>; the declared
  defaults of \<open>listAndCount\<close> are recorded although the body never reads them. The
  parameter \<open>id\<close> of the source is \<open>ident\<close> throughout.
\<close>

type_synonym SalesChannel = object

definition listAndCount_default_config :: FindConfig where
  "listAndCount_default_config = \<lparr> skip = Some 0, take_opt = Some 10, relations = Some [] \<rparr>"

definition SalesChannelService_retrieve :: "string \<Rightarrow> thrown + SalesChannel" where
  "SalesChannelService_retrieve ident = Inl (Error ''Method not implemented.'')"

definition SalesChannelService_listAndCount ::
  "object option \<Rightarrow> FindConfig option \<Rightarrow> thrown + (SalesChannel list \<times> nat)" where
  "SalesChannelService_listAndCount selector config =
     (let selector' = (case selector of None \<Rightarrow> [] | Some s \<Rightarrow> s);
          config' = (case config of None \<Rightarrow> listAndCount_default_config | Some c \<Rightarrow> c)
      in Inl (Error ''Method not implemented.''))"

definition SalesChannelService_create :: "object \<Rightarrow> thrown + SalesChannel" where
  "SalesChannelService_create data = Inl (Error ''Method not implemented.'')"

definition SalesChannelService_update :: "string \<Rightarrow> object \<Rightarrow> thrown + SalesChannel" where
  "SalesChannelService_update ident data = Inl (Error ''Method not implemented.'')"

definition SalesChannelService_delete :: "string \<Rightarrow> thrown + unit" where
  "SalesChannelService_delete ident = Inl (Error ''Method not implemented.'')"


section \<open>The shipping-option override entity and its store\<close>

text \<open>
  The entity carries the columns of the data model: an id, the reference to the cart,
  the reference to the shipping option, the price override and free-form metadata.
  A column that was never set holds \<open>JUndefined\<close>, so an instance that has not been
  saved yet has an undefined id. \<open>loaded\<close> holds the related objects that a query
  attached to the instance on request. The field \<open>id\<close> of the source is \<open>id_col\<close>.
  The table is the list of its rows in insertion order.
\<close>

record CustomShippingOption =
  id_col :: jsval
  cart_id :: jsval
  shipping_option_id :: jsval
  price :: jsval
  metadata :: jsval
  loaded :: object

type_synonym store = "CustomShippingOption list"

record query =
  q_where :: object
  q_skip :: "nat option"
  q_take :: "nat option"
  q_relations :: "string list option"

text \<open>
  Modelled from the spec: \<open>buildQuery\<close> of the utilities module is missing from the
  sources at hand. The spec describes it as turning a filter selector and a
  pagination/relations config into a query descriptor: the selector becomes the filter,
  and skip, take and relations are carried over when the config has them.
\<close>

definition buildQuery :: "object \<Rightarrow> FindConfig \<Rightarrow> query" where
  "buildQuery selector config =
     \<lparr> q_where = selector, q_skip = skip config, q_take = take_opt config,
       q_relations = relations config \<rparr>"

text \<open>
  The repository is injected through the constructor of the service, so it is a
  parameter of every operation here. Its four operations are those the service calls:
  \<open>findOne\<close>, \<open>find\<close> (here \<open>find_rows\<close>), \<open>create\<close> and \<open>save\<close>. An operation that
  touches the database takes the state of the store and returns the new one, with
  either the failure thrown by the storage layer or the result. \<open>create\<close> only builds
  an instance in memory.
\<close>

record Repository =
  findOne :: "query \<Rightarrow> store \<Rightarrow> (storage_failure + CustomShippingOption option) \<times> store"
  find_rows :: "query \<Rightarrow> store \<Rightarrow> (storage_failure + CustomShippingOption list) \<times> store"
  create :: "object \<Rightarrow> CustomShippingOption"
  save :: "CustomShippingOption \<Rightarrow> store \<Rightarrow> (storage_failure + CustomShippingOption) \<times> store"

text \<open>
  Modelled from the spec: \<open>atomicPhase_\<close> of the transaction base class is missing from
  the sources at hand. The spec describes the transaction wrapper as running a unit of
  work against a transaction, committing on success and rolling back on a thrown error:
  a failed unit of work leaves the store as it was before, whatever the work had
  written, and the error goes to the caller as it is. The name of the source ends in an
  underscore, which a constant here cannot.
\<close>

definition atomicPhase ::
  "(store \<Rightarrow> (thrown + 'a) \<times> store) \<Rightarrow> store \<Rightarrow> (thrown + 'a) \<times> store" where
  "atomicPhase work st =
     (case work st of
        (Inl e, _) \<Rightarrow> (Inl e, st)
      | (Inr r, st') \<Rightarrow> (Inr r, st'))"


section \<open>CustomShippingOptionService\<close>

text \<open>
  The three operations of the class. Each one hands its work to the transaction
  wrapper; the work asks the repository and turns a failure of the storage layer into
  the rejection of the promise. A config that the caller omits takes the default the
  parameter declares: the empty config for retrieve, skip 0, take 50 and no relations
  for list, an empty metadata object for create.
\<close>

definition not_found_message :: "string \<Rightarrow> string" where
  "not_found_message ident = ''Custom shipping option with id: '' @ ident @ '' was not found.''"

definition retrieve_default_config :: FindConfig where
  "retrieve_default_config = \<lparr> skip = None, take_opt = None, relations = None \<rparr>"

definition CustomShippingOptionService_retrieve ::
  "Repository \<Rightarrow> string \<Rightarrow> FindConfig option \<Rightarrow> store
     \<Rightarrow> (thrown + CustomShippingOption) \<times> store" where
  "CustomShippingOptionService_retrieve customShippingOptionRepo ident config st =
     (let config' = (case config of None \<Rightarrow> retrieve_default_config | Some c \<Rightarrow> c)
      in atomicPhase (\<lambda>manager.
           let query = buildQuery [(''id'', JStr ident)] config'
           in case findOne customShippingOptionRepo query manager of
                (Inl failure, manager') \<Rightarrow> (Inl (StorageFailure failure), manager')
              | (Inr None, manager') \<Rightarrow>
                  (Inl (MedusaError NOT_FOUND (not_found_message ident)), manager')
              | (Inr (Some customShippingOption), manager') \<Rightarrow>
                  (Inr customShippingOption, manager')) st)"

definition list_default_config :: FindConfig where
  "list_default_config = \<lparr> skip = Some 0, take_opt = Some 50, relations = Some [] \<rparr>"

definition CustomShippingOptionService_list ::
  "Repository \<Rightarrow> object \<Rightarrow> FindConfig option \<Rightarrow> store
     \<Rightarrow> (thrown + CustomShippingOption list) \<times> store" where
  "CustomShippingOptionService_list customShippingOptionRepo selector config st =
     (let config' = (case config of None \<Rightarrow> list_default_config | Some c \<Rightarrow> c)
      in atomicPhase (\<lambda>manager.
           let query = buildQuery selector config'
           in case find_rows customShippingOptionRepo query manager of
                (Inl failure, manager') \<Rightarrow> (Inl (StorageFailure failure), manager')
              | (Inr found, manager') \<Rightarrow> (Inr found, manager')) st)"

definition create_default_config :: object where
  "create_default_config = [(''metadata'', JObj [])]"

definition CustomShippingOptionService_create ::
  "Repository \<Rightarrow> object \<Rightarrow> object option \<Rightarrow> store
     \<Rightarrow> (thrown + CustomShippingOption) \<times> store" where
  "CustomShippingOptionService_create customShippingOptionRepo data config st =
     (let config' = (case config of None \<Rightarrow> create_default_config | Some c \<Rightarrow> c);
          metadata' = get_prop config' ''metadata'';
          cart_id' = get_prop data ''cart_id'';
          shipping_option_id' = get_prop data ''shipping_option_id'';
          price' = get_prop data ''price''
      in atomicPhase (\<lambda>manager.
           let customShippingOption = create customShippingOptionRepo
                 [(''cart_id'', cart_id'), (''shipping_option_id'', shipping_option_id'),
                  (''price'', price'), (''metadata'', metadata')]
           in case save customShippingOptionRepo customShippingOption manager of
                (Inl failure, manager') \<Rightarrow> (Inl (StorageFailure failure), manager')
              | (Inr result, manager') \<Rightarrow> (Inr result, manager')) st)"


section \<open>A storage layer\<close>

text \<open>
  Modelled from the spec: the repository class and the object-relational mapper behind
  it are missing from the sources at hand. The spec gives the storage interface as
  find-by-filter, create and save, with records matched by a selector (a set of filter
  criteria), results paginated by skip and take, records shaped by the requested
  relations, and id uniqueness and the validity of references enforced by the store.
  What the spec leaves open is a parameter: how an id is generated for a new row,
  which further constraints the store enforces, and what a relation resolves to.
\<close>

record backend =
  generateEntityId :: "store \<Rightarrow> string"
  accepts :: "CustomShippingOption \<Rightarrow> store \<Rightarrow> bool"
  resolve :: "string \<Rightarrow> CustomShippingOption \<Rightarrow> jsval"

text \<open>
  A selector names columns and the value each must have. A query with relations
  attaches, for each requested name, what the relation resolves to. Pagination drops
  the first \<open>skip\<close> records and keeps at most \<open>take\<close> of the rest.
\<close>

definition column :: "CustomShippingOption \<Rightarrow> string \<Rightarrow> jsval" where
  "column r k =
     (if k = ''id'' then id_col r
      else if k = ''cart_id'' then cart_id r
      else if k = ''shipping_option_id'' then shipping_option_id r
      else if k = ''price'' then price r
      else if k = ''metadata'' then metadata r
      else JUndefined)"

definition matches :: "object \<Rightarrow> CustomShippingOption \<Rightarrow> bool" where
  "matches selector r = list_all (\<lambda>k. column r k = get_prop selector k) (map fst selector)"

definition withRelations ::
  "backend \<Rightarrow> string list option \<Rightarrow> CustomShippingOption \<Rightarrow> CustomShippingOption" where
  "withRelations b rels r =
     (case rels of
        None \<Rightarrow> r
      | Some names \<Rightarrow> r\<lparr> loaded := map (\<lambda>n. (n, resolve b n r)) names \<rparr>)"

definition paginate :: "nat option \<Rightarrow> nat option \<Rightarrow> 'a list \<Rightarrow> 'a list" where
  "paginate sk tk xs =
     (let ys = (case sk of None \<Rightarrow> xs | Some n \<Rightarrow> drop n xs)
      in case tk of None \<Rightarrow> ys | Some n \<Rightarrow> take n ys)"

text \<open>
  Modelled from the spec: the repository over a table held in memory. \<open>findOne\<close>
  returns the first row that matches the filter, \<open>find\<close> the matching rows
  paginated; both leave the store as it is. \<open>create\<close> copies the columns of the given
  object into a new instance. \<open>save\<close> inserts the instance under a generated id (the
  service never saves an instance that has an id already) and returns the stored row;
  it refuses with a constraint violation a row the store does not accept or an id that
  is taken.
\<close>

definition memRepo :: "backend \<Rightarrow> Repository" where
  "memRepo b =
     \<lparr> findOne = (\<lambda>q st.
         (Inr (map_option (withRelations b (q_relations q))
                 (List.find (matches (q_where q)) st)), st)),
       find_rows = (\<lambda>q st.
         (Inr (map (withRelations b (q_relations q))
                 (paginate (q_skip q) (q_take q) (filter (matches (q_where q)) st))), st)),
       create = (\<lambda>obj.
         \<lparr> id_col = get_prop obj ''id'', cart_id = get_prop obj ''cart_id'',
           shipping_option_id = get_prop obj ''shipping_option_id'',
           price = get_prop obj ''price'', metadata = get_prop obj ''metadata'',
           loaded = [] \<rparr>),
       save = (\<lambda>e st.
         let ident = generateEntityId b st
         in if accepts b e st \<and> JStr ident \<notin> set (map id_col st)
            then (let e' = e\<lparr> id_col := JStr ident \<rparr> in (Inr e', st @ [e']))
            else (Inl (ConstraintViolation ''custom_shipping_option''), st)) \<rparr>"


section \<open>Sales-channel mutation hooks\<close>

text \<open>
  The hooks run in the browser. The state they act on is the sequence of calls made
  through the shared HTTP client and the sequence of query keys that the query client
  was told to invalidate. The remote API is a parameter: for each call it answers with
  an error or with a response body. The three client methods the hooks call are kept
  symbolic, and so are the query keys they name: the key factory is missing from the
  sources at hand, and its keys \<open>list()\<close>, \<open>lists()\<close> and \<open>detail(id)\<close> are the
  constructors \<open>Keys_list\<close>, \<open>Keys_lists\<close> and \<open>Keys_detail\<close>.
\<close>

datatype salesChannels_call =
    salesChannels_create object
  | salesChannels_update string object
  | salesChannels_delete string

datatype adminSalesChannelsKeys =
    Keys_list
  | Keys_lists
  | Keys_detail string

record client_state =
  requests :: "salesChannels_call list"
  invalidated :: "adminSalesChannelsKeys list"

type_synonym api = "salesChannels_call \<Rightarrow> thrown + jsval"

definition client_call ::
  "api \<Rightarrow> salesChannels_call \<Rightarrow> client_state \<Rightarrow> (thrown + jsval) \<times> client_state" where
  "client_call remote c s = (remote c, s\<lparr> requests := requests s @ [c] \<rparr>)"

definition invalidateQueries :: "adminSalesChannelsKeys \<Rightarrow> client_state \<Rightarrow> client_state" where
  "invalidateQueries key s = s\<lparr> invalidated := invalidated s @ [key] \<rparr>"

record 'o built_options =
  user_options :: "'o option"
  onSuccess :: "client_state \<Rightarrow> client_state"

text \<open>
  Modelled from the spec: \<open>buildOptions\<close> of the hook utilities is missing from the
  sources at hand. The spec says that each hook, on success, marks its related cached
  query keys as stale: the options built from a list of keys invalidate each key of the
  list when the mutation succeeds. The query client of the source is the \<open>invalidated\<close>
  part of the state.
\<close>

definition buildOptions :: "adminSalesChannelsKeys list \<Rightarrow> 'o option \<Rightarrow> 'o built_options" where
  "buildOptions queryKey options =
     \<lparr> user_options = options,
       onSuccess = (\<lambda>s. foldl (\<lambda>s' key. invalidateQueries key s') s queryKey) \<rparr>"

record ('p, 'o) mutation =
  mutationFn :: "'p \<Rightarrow> client_state \<Rightarrow> (thrown + jsval) \<times> client_state"
  mutation_options :: "'o built_options"

text \<open>
  Modelled from the spec: \<open>useMutation\<close> belongs to the query library, which is not
  part of the sources. A mutation pairs the function that issues the call with its
  options; invoking it runs the function once and runs the success callback only when
  the call succeeded.
\<close>

definition useMutation ::
  "('p \<Rightarrow> client_state \<Rightarrow> (thrown + jsval) \<times> client_state) \<Rightarrow> 'o built_options
     \<Rightarrow> ('p, 'o) mutation" where
  "useMutation fn opts = \<lparr> mutationFn = fn, mutation_options = opts \<rparr>"

definition mutate ::
  "('p, 'o) mutation \<Rightarrow> 'p \<Rightarrow> client_state \<Rightarrow> (thrown + jsval) \<times> client_state" where
  "mutate m payload s =
     (case mutationFn m payload s of
        (Inl e, s') \<Rightarrow> (Inl e, s')
      | (Inr response, s') \<Rightarrow> (Inr response, onSuccess (mutation_options m) s'))"

definition useAdminCreateSalesChannel :: "api \<Rightarrow> 'o option \<Rightarrow> (object, 'o) mutation" where
  "useAdminCreateSalesChannel client options =
     useMutation (\<lambda>payload. client_call client (salesChannels_create payload))
       (buildOptions [Keys_list] options)"

definition useAdminUpdateSalesChannel ::
  "api \<Rightarrow> string \<Rightarrow> 'o option \<Rightarrow> (object, 'o) mutation" where
  "useAdminUpdateSalesChannel client ident options =
     useMutation (\<lambda>payload. client_call client (salesChannels_update ident payload))
       (buildOptions [Keys_lists, Keys_detail ident] options)"

definition useAdminDeleteSalesChannel ::
  "api \<Rightarrow> string \<Rightarrow> 'o option \<Rightarrow> (unit, 'o) mutation" where
  "useAdminDeleteSalesChannel client ident options =
     useMutation (\<lambda>_. client_call client (salesChannels_delete ident))
       (buildOptions [Keys_lists, Keys_detail ident] options)"


section \<open>Error kinds\<close>

text \<open>
  The two kinds of failure the error-handling design names: the not-found error of the
  application logic, and a failure that comes from the storage layer. A result respects
  the design when it is a value or fails with one of the two.
\<close>

definition is_not_found :: "thrown \<Rightarrow> bool" where
  "is_not_found e = (case e of MedusaError NOT_FOUND _ \<Rightarrow> True | _ \<Rightarrow> False)"

definition from_storage :: "thrown \<Rightarrow> bool" where
  "from_storage e = (case e of StorageFailure _ \<Rightarrow> True | _ \<Rightarrow> False)"

definition only_not_found_or_storage :: "thrown + 'a \<Rightarrow> bool" where
  "only_not_found_or_storage res =
     (case res of Inl e \<Rightarrow> is_not_found e \<or> from_storage e | Inr _ \<Rightarrow> True)"


section \<open>Concrete instances\<close>

text \<open>
  Instances on which the definitions are run. The example backend numbers the ids by
  the size of the table, refuses a row without a price, and resolves the relation
  \<open>cart\<close> to a stub of the cart. The lossy repository stands for a connection that
  drops: a read fails, and a save fails after the row has been written. The example
  API answers every call but a delete.
\<close>

definition example_backend :: backend where
  "example_backend =
     \<lparr> generateEntityId = (\<lambda>st. ''cso_'' @ replicate (length st) CHR ''x''),
       accepts = (\<lambda>e st. price e \<noteq> JUndefined),
       resolve = (\<lambda>n r. if n = ''cart'' then JObj [(''id'', cart_id r)] else JNull) \<rparr>"

definition example_data :: object where
  "example_data =
     [(''cart_id'', JStr ''cart_1''), (''shipping_option_id'', JStr ''so_1''),
      (''price'', JNum 500)]"

definition example_row :: CustomShippingOption where
  "example_row =
     \<lparr> id_col = JStr ''cso_'', cart_id = JStr ''cart_1'', shipping_option_id = JStr ''so_1'',
       price = JNum 500, metadata = JObj [], loaded = [] \<rparr>"

definition example_store :: store where
  "example_store =
     [example_row,
      example_row\<lparr> id_col := JStr ''cso_x'', price := JNum 700 \<rparr>,
      example_row\<lparr> id_col := JStr ''cso_xx'', cart_id := JStr ''cart_2'' \<rparr>,
      example_row\<lparr> id_col := JStr ''cso_xxx'', price := JNum 900 \<rparr>]"

definition lossyRepo :: Repository where
  "lossyRepo =
     \<lparr> findOne = (\<lambda>q st. (Inl (ConnectionError ''connection lost''), st)),
       find_rows = (\<lambda>q st. (Inl (ConnectionError ''connection lost''), st)),
       create = create (memRepo example_backend),
       save = (\<lambda>e st. (Inl (ConnectionError ''connection lost''), st @ [e])) \<rparr>"

definition example_api :: api where
  "example_api c =
     (case c of
        salesChannels_delete _ \<Rightarrow> Inl (Error ''Request failed with status code 404'')
      | _ \<Rightarrow> Inr (JObj [(''id'', JStr ''sc_1'')]))"

definition empty_client_state :: client_state where
  "empty_client_state = \<lparr> requests = [], invalidated = [] \<rparr>"


section \<open>Facts about the storage layer\<close>

lemma matches_id_selector: "matches [(''id'', JStr ident)] = (\<lambda>r. id_col r = JStr ident)"
  by (rule ext) (simp add: matches_def column_def get_prop_def)

lemma memRepo_findOne:
  "findOne (memRepo b) q st =
     (Inr (map_option (withRelations b (q_relations q)) (List.find (matches (q_where q)) st)), st)"
  by (simp add: memRepo_def)

lemma memRepo_find_rows:
  "find_rows (memRepo b) q st =
     (Inr (map (withRelations b (q_relations q))
        (paginate (q_skip q) (q_take q) (filter (matches (q_where q)) st))), st)"
  by (simp add: memRepo_def)

lemma memRepo_create:
  "create (memRepo b) obj =
     \<lparr> id_col = get_prop obj ''id'', cart_id = get_prop obj ''cart_id'',
       shipping_option_id = get_prop obj ''shipping_option_id'',
       price = get_prop obj ''price'', metadata = get_prop obj ''metadata'',
       loaded = [] \<rparr>"
  by (simp add: memRepo_def)

lemma memRepo_save:
  "save (memRepo b) e st =
     (if accepts b e st \<and> JStr (generateEntityId b st) \<notin> set (map id_col st)
      then (Inr (e\<lparr> id_col := JStr (generateEntityId b st) \<rparr>),
            st @ [e\<lparr> id_col := JStr (generateEntityId b st) \<rparr>])
      else (Inl (ConstraintViolation ''custom_shipping_option''), st))"
  by (simp add: memRepo_def Let_def)

lemma find_unique:
  assumes "r \<in> set xs" and "P r" and "\<forall>r' \<in> set xs. P r' \<longrightarrow> r' = r"
  shows "List.find P xs = Some r"
  using assms
proof (induction xs)
  case Nil
  then show ?case by simp
next
  case (Cons a xs)
  show ?case
  proof (cases "P a")
    case True
    with Cons.prems(3) have "a = r" by simp
    with True show ?thesis by simp
  next
    case False
    with Cons.prems(1,2) have "r \<in> set xs" by auto
    moreover from Cons.prems(3) have "\<forall>r' \<in> set xs. P r' \<longrightarrow> r' = r" by simp
    ultimately have "List.find P xs = Some r" using Cons.IH Cons.prems(2) by blast
    with False show ?thesis by simp
  qed
qed

lemma find_some_member:
  "List.find P xs = Some r \<Longrightarrow> r \<in> set xs \<and> P r"
  by (induction xs) (auto split: if_splits)

lemma withRelations_columns:
  "id_col (withRelations b rels r) = id_col r"
  "cart_id (withRelations b rels r) = cart_id r"
  "shipping_option_id (withRelations b rels r) = shipping_option_id r"
  "price (withRelations b rels r) = price r"
  "metadata (withRelations b rels r) = metadata r"
  by (simp_all add: withRelations_def split: option.splits)

lemma retrieve_memRepo:
  "CustomShippingOptionService_retrieve (memRepo b) ident config st =
     (case List.find (\<lambda>r. id_col r = JStr ident) st of
        None \<Rightarrow> (Inl (MedusaError NOT_FOUND (not_found_message ident)), st)
      | Some r \<Rightarrow>
          (Inr (withRelations b
             (relations (case config of None \<Rightarrow> retrieve_default_config | Some c \<Rightarrow> c)) r), st))"
proof (cases "List.find (\<lambda>r. id_col r = JStr ident) st")
  case None
  then show ?thesis
    unfolding CustomShippingOptionService_retrieve_def atomicPhase_def Let_def
      memRepo_findOne buildQuery_def
    by (simp add: matches_id_selector)
next
  case (Some r)
  then show ?thesis
    unfolding CustomShippingOptionService_retrieve_def atomicPhase_def Let_def
      memRepo_findOne buildQuery_def
    by (simp add: matches_id_selector)
qed

lemma create_memRepo:
  "CustomShippingOptionService_create (memRepo b) data config st =
     (if accepts b
           \<lparr> id_col = JUndefined, cart_id = get_prop data ''cart_id'',
             shipping_option_id = get_prop data ''shipping_option_id'',
             price = get_prop data ''price'',
             metadata = get_prop (case config of None \<Rightarrow> create_default_config | Some c \<Rightarrow> c)
                          ''metadata'',
             loaded = [] \<rparr> st
         \<and> JStr (generateEntityId b st) \<notin> set (map id_col st)
      then (Inr \<lparr> id_col = JStr (generateEntityId b st), cart_id = get_prop data ''cart_id'',
                  shipping_option_id = get_prop data ''shipping_option_id'',
                  price = get_prop data ''price'',
                  metadata = get_prop (case config of None \<Rightarrow> create_default_config | Some c \<Rightarrow> c)
                               ''metadata'',
                  loaded = [] \<rparr>,
            st @ [\<lparr> id_col = JStr (generateEntityId b st), cart_id = get_prop data ''cart_id'',
                  shipping_option_id = get_prop data ''shipping_option_id'',
                  price = get_prop data ''price'',
                  metadata = get_prop (case config of None \<Rightarrow> create_default_config | Some c \<Rightarrow> c)
                               ''metadata'',
                  loaded = [] \<rparr>])
      else (Inl (StorageFailure (ConstraintViolation ''custom_shipping_option'')), st))"
  unfolding CustomShippingOptionService_create_def atomicPhase_def Let_def memRepo_create
    memRepo_save
  by (simp add: get_prop_def)


lemma list_memRepo:
  "CustomShippingOptionService_list (memRepo b) selector config st =
     (Inr (map (withRelations b (relations (case config of None \<Rightarrow> list_default_config | Some c \<Rightarrow> c)))
        (paginate (skip (case config of None \<Rightarrow> list_default_config | Some c \<Rightarrow> c))
           (take_opt (case config of None \<Rightarrow> list_default_config | Some c \<Rightarrow> c))
           (filter (matches selector) st))), st)"
  unfolding CustomShippingOptionService_list_def atomicPhase_def Let_def memRepo_find_rows
    buildQuery_def
  by simp

lemma atomicPhase_failed:
  "fst (atomicPhase work st) = Inl e \<Longrightarrow> snd (atomicPhase work st) = st"
  by (auto simp add: atomicPhase_def split: prod.splits sum.splits)

section \<open>Results about CustomShippingOptionService\<close>

text \<open>
  Claim C1. For every id and config, \<open>retrieve(id, config)\<close> fails with the not-found
  error when no stored record has that id, and otherwise returns a stored record with
  that id (the one record, ids being unique in the store), shaped by the relations the
  config requests. The store is left as it was.
\<close>

theorem retrieve_not_found_or_matching_record:
  "((\<forall>r \<in> set st. id_col r \<noteq> JStr ident) \<longrightarrow>
      CustomShippingOptionService_retrieve (memRepo b) ident config st
        = (Inl (MedusaError NOT_FOUND (not_found_message ident)), st))
   \<and> ((\<exists>r \<in> set st. id_col r = JStr ident) \<longrightarrow>
      (\<exists>r \<in> set st. id_col r = JStr ident \<and>
         CustomShippingOptionService_retrieve (memRepo b) ident config st
           = (Inr (withRelations b
                (relations (case config of None \<Rightarrow> retrieve_default_config | Some c \<Rightarrow> c)) r),
              st)))"
proof (intro conjI impI)
  assume "\<forall>r \<in> set st. id_col r \<noteq> JStr ident"
  then have "List.find (\<lambda>r. id_col r = JStr ident) st = None"
    by (simp add: find_None_iff)
  then show "CustomShippingOptionService_retrieve (memRepo b) ident config st
        = (Inl (MedusaError NOT_FOUND (not_found_message ident)), st)"
    by (simp add: retrieve_memRepo)
next
  assume "\<exists>r \<in> set st. id_col r = JStr ident"
  then have "List.find (\<lambda>r. id_col r = JStr ident) st \<noteq> None"
    by (auto simp add: find_None_iff)
  then obtain r where found: "List.find (\<lambda>r. id_col r = JStr ident) st = Some r"
    by blast
  then have "r \<in> set st \<and> id_col r = JStr ident"
    by (rule find_some_member)
  moreover from found have "CustomShippingOptionService_retrieve (memRepo b) ident config st
        = (Inr (withRelations b
             (relations (case config of None \<Rightarrow> retrieve_default_config | Some c \<Rightarrow> c)) r), st)"
    by (simp add: retrieve_memRepo)
  ultimately show "\<exists>r \<in> set st. id_col r = JStr ident \<and>
         CustomShippingOptionService_retrieve (memRepo b) ident config st
           = (Inr (withRelations b
                (relations (case config of None \<Rightarrow> retrieve_default_config | Some c \<Rightarrow> c)) r),
              st)"
    by blast
qed

theorem retrieve_not_found_or_matching_record_witness:
  "CustomShippingOptionService_retrieve (memRepo example_backend) ''cso_9'' None [example_row]
     = (Inl (MedusaError NOT_FOUND ''Custom shipping option with id: cso_9 was not found.''),
        [example_row])
   \<and> CustomShippingOptionService_retrieve (memRepo example_backend) ''cso_''
         (Some \<lparr> skip = None, take_opt = None, relations = Some [''cart''] \<rparr>) [example_row]
     = (Inr (example_row\<lparr> loaded := [(''cart'', JObj [(''id'', JStr ''cart_1'')])] \<rparr>),
        [example_row])"
  using retrieve_not_found_or_matching_record
          [where st = "[example_row]" and ident = "''cso_9''" and b = example_backend
             and config = None]
        retrieve_not_found_or_matching_record
          [where st = "[example_row]" and ident = "''cso_''" and b = example_backend
             and config = "Some \<lparr> skip = None, take_opt = None, relations = Some [''cart''] \<rparr>"]
  by (simp add: example_row_def not_found_message_def withRelations_def example_backend_def)

text \<open>
  Claim C2. For every input data, after \<open>create(data, config)\<close> succeeds, retrieving
  the id of the created record returns that record: with the default config the very
  record that was persisted, and with any config a record whose id, cart_id,
  shipping_option_id, price and metadata are those just persisted.
\<close>

theorem create_then_retrieve:
  assumes ok: "CustomShippingOptionService_create (memRepo b) data config st = (Inr r, st')"
  shows "\<exists>ident. id_col r = JStr ident
           \<and> CustomShippingOptionService_retrieve (memRepo b) ident None st' = (Inr r, st')
           \<and> (\<exists>r'. CustomShippingOptionService_retrieve (memRepo b) ident (Some cfg) st'
                       = (Inr r', st')
                 \<and> id_col r' = id_col r \<and> cart_id r' = cart_id r
                 \<and> shipping_option_id r' = shipping_option_id r
                 \<and> price r' = price r \<and> metadata r' = metadata r)"
proof -
  let ?i = "generateEntityId b st"
  from ok have st': "st' = st @ [r]"
    by (auto simp add: create_memRepo split: if_splits)
  from ok have idr: "id_col r = JStr ?i"
    by (auto simp add: create_memRepo split: if_splits)
  from ok have fresh: "JStr ?i \<notin> set (map id_col st)"
    by (auto simp add: create_memRepo split: if_splits)
  have "r \<in> set st'" using st' by simp
  moreover have "\<forall>r' \<in> set st'. id_col r' = JStr ?i \<longrightarrow> r' = r"
    using st' fresh by (auto simp add: image_iff)
  ultimately have found: "List.find (\<lambda>r. id_col r = JStr ?i) st' = Some r"
    using idr find_unique [of r st' "\<lambda>r. id_col r = JStr ?i"] by blast
  have none: "CustomShippingOptionService_retrieve (memRepo b) ?i None st' = (Inr r, st')"
    by (simp add: retrieve_memRepo found retrieve_default_config_def withRelations_def)
  have some: "CustomShippingOptionService_retrieve (memRepo b) ?i (Some cfg) st'
                = (Inr (withRelations b (relations cfg) r), st')"
    by (simp add: retrieve_memRepo found)
  show ?thesis
    using idr none some by (simp add: withRelations_columns)
qed

theorem create_then_retrieve_witness:
  "CustomShippingOptionService_create (memRepo example_backend) example_data None []
     = (Inr example_row, [example_row])
   \<and> CustomShippingOptionService_retrieve (memRepo example_backend) ''cso_'' None [example_row]
     = (Inr example_row, [example_row])"
proof -
  have created: "CustomShippingOptionService_create (memRepo example_backend) example_data None []
     = (Inr example_row, [example_row])"
    by (simp add: create_memRepo example_backend_def example_data_def example_row_def
        get_prop_def create_default_config_def)
  show ?thesis
    using created
      create_then_retrieve
        [OF created, where cfg = "\<lparr> skip = None, take_opt = None, relations = Some [] \<rparr>"]
    by (simp add: example_row_def)
qed

text \<open>
  Claim C3. For every selector and config, \<open>list(selector, config)\<close> returns exactly
  the stored records that match the selector, in the order of the store, after dropping
  the first \<open>skip\<close> of them and keeping at most \<open>take\<close> (a bound the config does not
  give is not applied), each shaped by the requested relations. When the config is
  omitted, skip is 0, take is 50 and no relation is requested.
\<close>

theorem list_matching_paginated:
  "CustomShippingOptionService_list (memRepo b) selector (Some cfg) st =
     (Inr (map (withRelations b (relations cfg))
        ((case take_opt cfg of None \<Rightarrow> (\<lambda>xs. xs) | Some t \<Rightarrow> take t)
           ((case skip cfg of None \<Rightarrow> (\<lambda>xs. xs) | Some s \<Rightarrow> drop s)
              (filter (matches selector) st)))), st)
   \<and> CustomShippingOptionService_list (memRepo b) selector None st =
       (Inr (map (withRelations b (Some [])) (take 50 (drop 0 (filter (matches selector) st)))), st)"
  by (simp add: list_memRepo paginate_def list_default_config_def split: option.splits)

theorem list_matching_paginated_witness:
  "CustomShippingOptionService_list (memRepo example_backend) [(''cart_id'', JStr ''cart_1'')]
       (Some \<lparr> skip = Some 1, take_opt = Some 1, relations = None \<rparr>) example_store
     = (Inr [example_row\<lparr> id_col := JStr ''cso_x'', price := JNum 700 \<rparr>], example_store)
   \<and> CustomShippingOptionService_list (memRepo example_backend) [(''cart_id'', JStr ''cart_1'')]
       None example_store
     = (Inr [example_row,
             example_row\<lparr> id_col := JStr ''cso_x'', price := JNum 700 \<rparr>,
             example_row\<lparr> id_col := JStr ''cso_xxx'', price := JNum 900 \<rparr>], example_store)"
  using list_matching_paginated
          [where b = example_backend and selector = "[(''cart_id'', JStr ''cart_1'')]"
             and cfg = "\<lparr> skip = Some 1, take_opt = Some 1, relations = None \<rparr>"
             and st = example_store]
  by (simp add: example_store_def example_row_def matches_def column_def get_prop_def
      withRelations_def)

text \<open>
  Claim C4. For every data and config, \<open>create(data, config)\<close> persists a new record
  whose cart_id, shipping_option_id and price are those of data and whose metadata is
  the one of config (the empty object when config is omitted), and returns that
  persisted record: the store afterwards is the store before with the returned record
  appended. The create succeeds whenever the store accepts the row and the new id is
  not taken.
\<close>

theorem create_persists_merged_record:
  "(accepts b
       \<lparr> id_col = JUndefined, cart_id = get_prop data ''cart_id'',
         shipping_option_id = get_prop data ''shipping_option_id'',
         price = get_prop data ''price'',
         metadata = get_prop (case config of None \<Rightarrow> create_default_config | Some c \<Rightarrow> c)
                      ''metadata'',
         loaded = [] \<rparr> st
      \<and> JStr (generateEntityId b st) \<notin> set (map id_col st) \<longrightarrow>
    (\<exists>r. CustomShippingOptionService_create (memRepo b) data config st = (Inr r, st @ [r])))
   \<and> (CustomShippingOptionService_create (memRepo b) data config st = (Inr r, st') \<longrightarrow>
        st' = st @ [r]
        \<and> id_col r = JStr (generateEntityId b st)
        \<and> JStr (generateEntityId b st) \<notin> set (map id_col st)
        \<and> cart_id r = get_prop data ''cart_id''
        \<and> shipping_option_id r = get_prop data ''shipping_option_id''
        \<and> price r = get_prop data ''price''
        \<and> metadata r = (case config of None \<Rightarrow> JObj [] | Some c \<Rightarrow> get_prop c ''metadata'')
        \<and> loaded r = [])"
proof (intro conjI impI)
  assume "accepts b
       \<lparr> id_col = JUndefined, cart_id = get_prop data ''cart_id'',
         shipping_option_id = get_prop data ''shipping_option_id'',
         price = get_prop data ''price'',
         metadata = get_prop (case config of None \<Rightarrow> create_default_config | Some c \<Rightarrow> c)
                      ''metadata'',
         loaded = [] \<rparr> st
      \<and> JStr (generateEntityId b st) \<notin> set (map id_col st)"
  then show "\<exists>r. CustomShippingOptionService_create (memRepo b) data config st = (Inr r, st @ [r])"
    by (simp add: create_memRepo)
next
  assume ok: "CustomShippingOptionService_create (memRepo b) data config st = (Inr r, st')"
  have md: "get_prop create_default_config ''metadata'' = JObj []"
    by (simp add: create_default_config_def get_prop_def)
  from ok show "st' = st @ [r]"
    by (auto simp add: create_memRepo split: if_splits)
  from ok show "id_col r = JStr (generateEntityId b st)"
    by (auto simp add: create_memRepo split: if_splits)
  from ok show "JStr (generateEntityId b st) \<notin> set (map id_col st)"
    by (auto simp add: create_memRepo split: if_splits)
  from ok show "cart_id r = get_prop data ''cart_id''"
    by (auto simp add: create_memRepo split: if_splits)
  from ok show "shipping_option_id r = get_prop data ''shipping_option_id''"
    by (auto simp add: create_memRepo split: if_splits)
  from ok show "price r = get_prop data ''price''"
    by (auto simp add: create_memRepo split: if_splits)
  from ok show "metadata r = (case config of None \<Rightarrow> JObj [] | Some c \<Rightarrow> get_prop c ''metadata'')"
    by (cases config) (auto simp add: create_memRepo md split: if_splits)
  from ok show "loaded r = []"
    by (auto simp add: create_memRepo split: if_splits)
qed

theorem create_persists_merged_record_witness:
  "CustomShippingOptionService_create (memRepo example_backend) example_data
       (Some [(''metadata'', JObj [(''note'', JStr ''gift'')])]) [example_row]
     = (Inr (example_row\<lparr> id_col := JStr ''cso_x'',
                           metadata := JObj [(''note'', JStr ''gift'')] \<rparr>),
        [example_row,
         example_row\<lparr> id_col := JStr ''cso_x'', metadata := JObj [(''note'', JStr ''gift'')] \<rparr>])"
proof -
  let ?config = "Some [(''metadata'', JObj [(''note'', JStr ''gift'')])]"
  have "\<exists>r. CustomShippingOptionService_create (memRepo example_backend) example_data ?config
              [example_row] = (Inr r, [example_row] @ [r])"
    using create_persists_merged_record
            [where b = example_backend and data = example_data and config = ?config
               and st = "[example_row]"]
    by (simp add: example_backend_def example_data_def example_row_def get_prop_def)
  then obtain r where created:
    "CustomShippingOptionService_create (memRepo example_backend) example_data ?config
       [example_row] = (Inr r, [example_row] @ [r])"
    by blast
  have "r = example_row\<lparr> id_col := JStr ''cso_x'',
                          metadata := JObj [(''note'', JStr ''gift'')] \<rparr>"
    using created create_persists_merged_record
            [where b = example_backend and data = example_data and config = ?config
               and st = "[example_row]" and r = r and st' = "[example_row] @ [r]"]
    by (cases r) (simp add: example_backend_def example_data_def example_row_def get_prop_def)
  with created show ?thesis by simp
qed

text \<open>
  Claim C9. For every input data, \<open>create\<close> reads only cart_id, shipping_option_id
  and price from data and takes the metadata from config: two inputs that agree on
  these three fields give the same result and the same store with every repository,
  whatever else they hold. Any other field of data, a metadata field of data included,
  never reaches the repository.
\<close>

theorem create_ignores_other_fields:
  assumes "get_prop data ''cart_id'' = get_prop data' ''cart_id''"
    and "get_prop data ''shipping_option_id'' = get_prop data' ''shipping_option_id''"
    and "get_prop data ''price'' = get_prop data' ''price''"
  shows "CustomShippingOptionService_create repo data config st
           = CustomShippingOptionService_create repo data' config st"
  unfolding CustomShippingOptionService_create_def Let_def
  by (simp only: assms)

theorem create_ignores_other_fields_witness:
  "CustomShippingOptionService_create (memRepo example_backend)
       ((''id'', JStr ''mine'') # (''metadata'', JObj [(''note'', JStr ''gift'')]) # example_data)
       None []
     = (Inr example_row, [example_row])"
proof -
  have "CustomShippingOptionService_create (memRepo example_backend)
          ((''id'', JStr ''mine'') # (''metadata'', JObj [(''note'', JStr ''gift'')]) # example_data)
          None []
        = CustomShippingOptionService_create (memRepo example_backend) example_data None []"
    using create_ignores_other_fields
            [where data = "(''id'', JStr ''mine'') # (''metadata'', JObj [(''note'', JStr ''gift'')])
                             # example_data"
               and data' = example_data and repo = "memRepo example_backend"
               and config = None and st = "[]"]
    by (simp add: example_data_def get_prop_def)
  moreover have "CustomShippingOptionService_create (memRepo example_backend) example_data None []
        = (Inr example_row, [example_row])"
    by (simp add: create_memRepo example_backend_def example_data_def example_row_def
        get_prop_def create_default_config_def)
  ultimately show ?thesis by simp
qed

text \<open>
  Claim C7. Each operation of the service is one atomic unit of work. When the work
  handed to the transaction wrapper throws, the store afterwards is the store before,
  whatever the work had written; when it succeeds, the store it produced is kept. So a
  retrieve, a list or a create that fails leaves the store unchanged, and a create that
  succeeds leaves the store that its save produced.
\<close>

theorem operations_atomic:
  "(\<forall>e dirty. work st = (Inl e, dirty) \<longrightarrow> atomicPhase work st = (Inl e, st))
   \<and> (\<forall>r st'. work st = (Inr r, st') \<longrightarrow> atomicPhase work st = (Inr r, st'))
   \<and> (\<forall>e. fst (CustomShippingOptionService_retrieve repo ident config st) = Inl e \<longrightarrow>
          snd (CustomShippingOptionService_retrieve repo ident config st) = st)
   \<and> (\<forall>e. fst (CustomShippingOptionService_list repo selector lconfig st) = Inl e \<longrightarrow>
          snd (CustomShippingOptionService_list repo selector lconfig st) = st)
   \<and> (\<forall>e. fst (CustomShippingOptionService_create repo data cconfig st) = Inl e \<longrightarrow>
          snd (CustomShippingOptionService_create repo data cconfig st) = st)
   \<and> (\<forall>r st'. CustomShippingOptionService_create repo data cconfig st = (Inr r, st') \<longrightarrow>
          (\<exists>entity. save repo entity st = (Inr r, st')))"
proof (intro conjI allI impI)
  fix e dirty
  assume "work st = (Inl e, dirty)"
  then show "atomicPhase work st = (Inl e, st)"
    by (simp add: atomicPhase_def)
next
  fix r st'
  assume "work st = (Inr r, st')"
  then show "atomicPhase work st = (Inr r, st')"
    by (simp add: atomicPhase_def)
next
  fix e
  assume "fst (CustomShippingOptionService_retrieve repo ident config st) = Inl e"
  then show "snd (CustomShippingOptionService_retrieve repo ident config st) = st"
    unfolding CustomShippingOptionService_retrieve_def Let_def
    by (rule atomicPhase_failed)
next
  fix e
  assume "fst (CustomShippingOptionService_list repo selector lconfig st) = Inl e"
  then show "snd (CustomShippingOptionService_list repo selector lconfig st) = st"
    unfolding CustomShippingOptionService_list_def Let_def
    by (rule atomicPhase_failed)
next
  fix e
  assume "fst (CustomShippingOptionService_create repo data cconfig st) = Inl e"
  then show "snd (CustomShippingOptionService_create repo data cconfig st) = st"
    unfolding CustomShippingOptionService_create_def Let_def
    by (rule atomicPhase_failed)
next
  fix r st'
  assume "CustomShippingOptionService_create repo data cconfig st = (Inr r, st')"
  then show "\<exists>entity. save repo entity st = (Inr r, st')"
    unfolding CustomShippingOptionService_create_def Let_def atomicPhase_def
    by (auto split: prod.splits sum.splits)
qed

theorem operations_atomic_witness:
  "atomicPhase (\<lambda>manager. (Inl (Error ''boom''), manager @ [example_row])) []
       = (Inl (Error ''boom'') :: thrown + unit, [])
   \<and> atomicPhase (\<lambda>manager. (Inr (), manager @ [example_row])) [] = (Inr (), [example_row])
   \<and> (\<exists>entity. save (memRepo example_backend) entity [] = (Inr example_row, [example_row]))
   \<and> save lossyRepo example_row [] = (Inl (ConnectionError ''connection lost''), [example_row])
   \<and> CustomShippingOptionService_create lossyRepo example_data None []
       = (Inl (StorageFailure (ConnectionError ''connection lost'')), [])
   \<and> CustomShippingOptionService_retrieve lossyRepo ''cso_'' None [example_row]
       = (Inl (StorageFailure (ConnectionError ''connection lost'')), [example_row])
   \<and> CustomShippingOptionService_list lossyRepo [] None [example_row]
       = (Inl (StorageFailure (ConnectionError ''connection lost'')), [example_row])"
proof -
  have wrote: "save lossyRepo example_row [] = (Inl (ConnectionError ''connection lost''), [example_row])"
    by (simp add: lossyRepo_def)
  have c: "fst (CustomShippingOptionService_create lossyRepo example_data None [])
             = Inl (StorageFailure (ConnectionError ''connection lost''))"
    by (simp add: CustomShippingOptionService_create_def atomicPhase_def lossyRepo_def)
  have r: "fst (CustomShippingOptionService_retrieve lossyRepo ''cso_'' None [example_row])
             = Inl (StorageFailure (ConnectionError ''connection lost''))"
    by (simp add: CustomShippingOptionService_retrieve_def atomicPhase_def lossyRepo_def)
  have l: "fst (CustomShippingOptionService_list lossyRepo [] None [example_row])
             = Inl (StorageFailure (ConnectionError ''connection lost''))"
    by (simp add: CustomShippingOptionService_list_def atomicPhase_def lossyRepo_def)
  have "snd (CustomShippingOptionService_create lossyRepo example_data None []) = []"
    using c operations_atomic
            [where repo = lossyRepo and data = example_data and cconfig = None and st = "[]"]
    by blast
  moreover have "snd (CustomShippingOptionService_retrieve lossyRepo ''cso_'' None [example_row])
                   = [example_row]"
    using r operations_atomic
            [where repo = lossyRepo and ident = "''cso_''" and config = None
               and st = "[example_row]"]
    by blast
  moreover have "snd (CustomShippingOptionService_list lossyRepo [] None [example_row])
                   = [example_row]"
    using l operations_atomic
            [where repo = lossyRepo and selector = "[]" and lconfig = None
               and st = "[example_row]"]
    by blast
  moreover have "atomicPhase (\<lambda>manager. (Inl (Error ''boom''), manager @ [example_row])) []
       = (Inl (Error ''boom'') :: thrown + unit, [])"
    using operations_atomic
            [where work = "\<lambda>manager. (Inl (Error ''boom'') :: thrown + unit, manager @ [example_row])"
               and st = "[]"]
    by simp
  moreover have "atomicPhase (\<lambda>manager. (Inr (), manager @ [example_row])) []
       = (Inr (), [example_row])"
    using operations_atomic
            [where work = "\<lambda>manager. (Inr (), manager @ [example_row])" and st = "[]"]
    by simp
  moreover have "\<exists>entity. save (memRepo example_backend) entity []
                    = (Inr example_row, [example_row])"
  proof -
    have "CustomShippingOptionService_create (memRepo example_backend) example_data None []
            = (Inr example_row, [example_row])"
      by (simp add: create_memRepo example_backend_def example_data_def example_row_def
          get_prop_def create_default_config_def)
    then show ?thesis
      using operations_atomic
              [where repo = "memRepo example_backend" and data = example_data
                 and cconfig = None and st = "[]"]
      by blast
  qed
  ultimately show ?thesis
    using wrote c r l by (simp add: prod_eq_iff)
qed

section \<open>Results about the sales-channel mutation hooks\<close>

text \<open>
  Claim C8. Each sales-channel mutation hook issues exactly one HTTP call per
  invocation of its mutation: the create hook the create call with the payload, the
  update hook the update call with its id and the payload, the delete hook the delete
  call with its id. When the call succeeds the hook invalidates its query keys (the
  list key for create; the lists key and the detail key of the id for update and
  delete); when the call fails it invalidates nothing and the error is returned.
\<close>

theorem mutation_hooks_one_call_invalidate_on_success:
  "mutate (useAdminCreateSalesChannel client options) payload s =
     (case client (salesChannels_create payload) of
        Inl e \<Rightarrow> (Inl e, s\<lparr> requests := requests s @ [salesChannels_create payload] \<rparr>)
      | Inr response \<Rightarrow>
          (Inr response, s\<lparr> requests := requests s @ [salesChannels_create payload],
                            invalidated := invalidated s @ [Keys_list] \<rparr>))
   \<and> mutate (useAdminUpdateSalesChannel client ident options) payload s =
     (case client (salesChannels_update ident payload) of
        Inl e \<Rightarrow> (Inl e, s\<lparr> requests := requests s @ [salesChannels_update ident payload] \<rparr>)
      | Inr response \<Rightarrow>
          (Inr response, s\<lparr> requests := requests s @ [salesChannels_update ident payload],
                            invalidated := invalidated s @ [Keys_lists, Keys_detail ident] \<rparr>))
   \<and> mutate (useAdminDeleteSalesChannel client ident options) () s =
     (case client (salesChannels_delete ident) of
        Inl e \<Rightarrow> (Inl e, s\<lparr> requests := requests s @ [salesChannels_delete ident] \<rparr>)
      | Inr response \<Rightarrow>
          (Inr response, s\<lparr> requests := requests s @ [salesChannels_delete ident],
                            invalidated := invalidated s @ [Keys_lists, Keys_detail ident] \<rparr>))"
  by (simp add: mutate_def useMutation_def buildOptions_def client_call_def
      invalidateQueries_def useAdminCreateSalesChannel_def useAdminUpdateSalesChannel_def
      useAdminDeleteSalesChannel_def split: sum.splits)

theorem mutation_hooks_one_call_invalidate_on_success_witness:
  "mutate (useAdminUpdateSalesChannel example_api ''sc_1'' (None :: unit option))
       [(''name'', JStr ''web'')] empty_client_state
     = (Inr (JObj [(''id'', JStr ''sc_1'')]),
        \<lparr> requests = [salesChannels_update ''sc_1'' [(''name'', JStr ''web'')]],
          invalidated = [Keys_lists, Keys_detail ''sc_1''] \<rparr>)
   \<and> mutate (useAdminDeleteSalesChannel example_api ''sc_1'' (None :: unit option))
       () empty_client_state
     = (Inl (Error ''Request failed with status code 404''),
        \<lparr> requests = [salesChannels_delete ''sc_1''], invalidated = [] \<rparr>)
   \<and> mutate (useAdminCreateSalesChannel example_api (None :: unit option))
       [(''name'', JStr ''web'')] empty_client_state
     = (Inr (JObj [(''id'', JStr ''sc_1'')]),
        \<lparr> requests = [salesChannels_create [(''name'', JStr ''web'')]],
          invalidated = [Keys_list] \<rparr>)"
  using mutation_hooks_one_call_invalidate_on_success
          [where client = example_api and ident = "''sc_1''" and options = "None :: unit option"
             and payload = "[(''name'', JStr ''web'')]" and s = empty_client_state]
  by (simp add: example_api_def empty_client_state_def)

section \<open>Results about SalesChannelService\<close>

text \<open>
  Claim C6. In SalesChannelService, \<open>update(id, data)\<close> and \<open>delete(id)\<close> fail by
  throwing for every input: each returns the error "Method not implemented." and never
  a value.
\<close>

theorem SalesChannelService_update_delete_always_throw:
  "SalesChannelService_update ident data = Inl (Error ''Method not implemented.'')
   \<and> SalesChannelService_delete ident = Inl (Error ''Method not implemented.'')
   \<and> (\<nexists>r. SalesChannelService_update ident data = Inr r)
   \<and> (\<nexists>u. SalesChannelService_delete ident = Inr u)"
  by (simp add: SalesChannelService_update_def SalesChannelService_delete_def)

text \<open>
  Claim C10. Every public operation of SalesChannelService throws for every input:
  retrieve, listAndCount and create as well as update and delete return the error
  "Method not implemented." and never a value, so the service returns no record, no
  page and persists nothing. The default config declared for listAndCount has take 10.
\<close>

theorem SalesChannelService_every_operation_throws:
  "SalesChannelService_retrieve ident = Inl (Error ''Method not implemented.'')
   \<and> SalesChannelService_listAndCount selector config = Inl (Error ''Method not implemented.'')
   \<and> SalesChannelService_create data = Inl (Error ''Method not implemented.'')
   \<and> SalesChannelService_update ident' data' = Inl (Error ''Method not implemented.'')
   \<and> SalesChannelService_delete ident'' = Inl (Error ''Method not implemented.'')
   \<and> (\<nexists>r. SalesChannelService_retrieve ident = Inr r)
   \<and> (\<nexists>page. SalesChannelService_listAndCount selector config = Inr page)
   \<and> (\<nexists>r. SalesChannelService_create data = Inr r)
   \<and> take_opt listAndCount_default_config = Some 10"
  by (simp add: SalesChannelService_retrieve_def SalesChannelService_listAndCount_def
      SalesChannelService_create_def SalesChannelService_update_def
      SalesChannelService_delete_def listAndCount_default_config_def)


section \<open>Results about the error kinds\<close>

text \<open>
  Claim C5, as stated: the only error kind raised by the application logic is the
  not-found error, every other failure coming from the storage layer. SalesChannelService
  refutes it: its retrieve raises a plain error that is neither.
\<close>

theorem SalesChannelService_retrieve_raises_plain_error:
  "SalesChannelService_retrieve ''sc_1'' = Inl (Error ''Method not implemented.'')
   \<and> \<not> only_not_found_or_storage (SalesChannelService_retrieve ''sc_1'')"
  by (simp add: SalesChannelService_retrieve_def only_not_found_or_storage_def
      is_not_found_def from_storage_def)

text \<open>
  Claim C5, amended. In CustomShippingOptionService the only error the application
  logic raises is the not-found error, raised by retrieve exactly when the lookup
  yields no row; every operation otherwise fails only when the storage layer fails, and
  then with that very failure. The operations of SalesChannelService raise the plain
  error "Method not implemented." instead.
\<close>

theorem error_kinds_of_the_services:
  "(fst (CustomShippingOptionService_retrieve repo ident config st)
        = Inl (MedusaError NOT_FOUND (not_found_message ident))
      \<longleftrightarrow> fst (findOne repo (buildQuery [(''id'', JStr ident)]
                 (case config of None \<Rightarrow> retrieve_default_config | Some c \<Rightarrow> c)) st) = Inr None)
   \<and> (\<forall>e. fst (CustomShippingOptionService_retrieve repo ident config st) = Inl e \<longrightarrow>
          e = MedusaError NOT_FOUND (not_found_message ident)
          \<or> (\<exists>f. e = StorageFailure f
                \<and> fst (findOne repo (buildQuery [(''id'', JStr ident)]
                     (case config of None \<Rightarrow> retrieve_default_config | Some c \<Rightarrow> c)) st) = Inl f))
   \<and> (\<forall>f. fst (findOne repo (buildQuery [(''id'', JStr ident)]
                 (case config of None \<Rightarrow> retrieve_default_config | Some c \<Rightarrow> c)) st) = Inl f \<longrightarrow>
          fst (CustomShippingOptionService_retrieve repo ident config st) = Inl (StorageFailure f))
   \<and> (\<forall>e. fst (CustomShippingOptionService_list repo selector lconfig st) = Inl e \<longleftrightarrow>
          (\<exists>f. e = StorageFailure f
             \<and> fst (find_rows repo (buildQuery selector
                  (case lconfig of None \<Rightarrow> list_default_config | Some c \<Rightarrow> c)) st) = Inl f))
   \<and> (\<forall>e. fst (CustomShippingOptionService_create repo data cconfig st) = Inl e \<longleftrightarrow>
          (\<exists>f. e = StorageFailure f
             \<and> fst (save repo (create repo
                  [(''cart_id'', get_prop data ''cart_id''),
                   (''shipping_option_id'', get_prop data ''shipping_option_id''),
                   (''price'', get_prop data ''price''),
                   (''metadata'', get_prop
                      (case cconfig of None \<Rightarrow> create_default_config | Some c \<Rightarrow> c)
                      ''metadata'')]) st) = Inl f))
   \<and> SalesChannelService_retrieve sid = Inl (Error ''Method not implemented.'')
   \<and> SalesChannelService_listAndCount sselector sconfig = Inl (Error ''Method not implemented.'')
   \<and> SalesChannelService_create sdata = Inl (Error ''Method not implemented.'')
   \<and> SalesChannelService_update sid' sdata' = Inl (Error ''Method not implemented.'')
   \<and> SalesChannelService_delete sid'' = Inl (Error ''Method not implemented.'')"
proof (intro conjI)
  let ?q = "buildQuery [(''id'', JStr ident)]
              (case config of None \<Rightarrow> retrieve_default_config | Some c \<Rightarrow> c)"
  show "fst (CustomShippingOptionService_retrieve repo ident config st)
        = Inl (MedusaError NOT_FOUND (not_found_message ident))
      \<longleftrightarrow> fst (findOne repo ?q st) = Inr None"
    unfolding CustomShippingOptionService_retrieve_def Let_def atomicPhase_def
    by (auto split: prod.splits sum.splits option.splits)
  show "\<forall>e. fst (CustomShippingOptionService_retrieve repo ident config st) = Inl e \<longrightarrow>
          e = MedusaError NOT_FOUND (not_found_message ident)
          \<or> (\<exists>f. e = StorageFailure f \<and> fst (findOne repo ?q st) = Inl f)"
    unfolding CustomShippingOptionService_retrieve_def Let_def atomicPhase_def
    by (auto split: prod.splits sum.splits option.splits)
  show "\<forall>f. fst (findOne repo ?q st) = Inl f \<longrightarrow>
          fst (CustomShippingOptionService_retrieve repo ident config st) = Inl (StorageFailure f)"
    unfolding CustomShippingOptionService_retrieve_def Let_def atomicPhase_def
    by (auto split: prod.splits sum.splits option.splits)
  show "\<forall>e. fst (CustomShippingOptionService_list repo selector lconfig st) = Inl e \<longleftrightarrow>
          (\<exists>f. e = StorageFailure f
             \<and> fst (find_rows repo (buildQuery selector
                  (case lconfig of None \<Rightarrow> list_default_config | Some c \<Rightarrow> c)) st) = Inl f)"
    unfolding CustomShippingOptionService_list_def Let_def atomicPhase_def
    by (auto split: prod.splits sum.splits)
  show "\<forall>e. fst (CustomShippingOptionService_create repo data cconfig st) = Inl e \<longleftrightarrow>
          (\<exists>f. e = StorageFailure f
             \<and> fst (save repo (create repo
                  [(''cart_id'', get_prop data ''cart_id''),
                   (''shipping_option_id'', get_prop data ''shipping_option_id''),
                   (''price'', get_prop data ''price''),
                   (''metadata'', get_prop
                      (case cconfig of None \<Rightarrow> create_default_config | Some c \<Rightarrow> c)
                      ''metadata'')]) st) = Inl f)"
    unfolding CustomShippingOptionService_create_def Let_def atomicPhase_def
    by (auto split: prod.splits sum.splits)
qed (simp_all add: SalesChannelService_retrieve_def SalesChannelService_listAndCount_def
      SalesChannelService_create_def SalesChannelService_update_def
      SalesChannelService_delete_def)

theorem error_kinds_of_the_services_witness:
  "fst (CustomShippingOptionService_retrieve (memRepo example_backend) ''cso_9'' None [example_row])
     = Inl (MedusaError NOT_FOUND ''Custom shipping option with id: cso_9 was not found.'')
   \<and> fst (CustomShippingOptionService_retrieve lossyRepo ''cso_'' None [example_row])
     = Inl (StorageFailure (ConnectionError ''connection lost''))
   \<and> fst (CustomShippingOptionService_list lossyRepo [] None [example_row])
     = Inl (StorageFailure (ConnectionError ''connection lost''))
   \<and> fst (CustomShippingOptionService_create lossyRepo example_data None [])
     = Inl (StorageFailure (ConnectionError ''connection lost''))
   \<and> fst (CustomShippingOptionService_create (memRepo example_backend) [] None [])
     = Inl (StorageFailure (ConstraintViolation ''custom_shipping_option''))"
proof (intro conjI)
  note mem = error_kinds_of_the_services
               [where repo = "memRepo example_backend" and ident = "''cso_9''" and config = None
                  and st = "[example_row]"]
  note lossy = error_kinds_of_the_services
                 [where repo = lossyRepo and ident = "''cso_''" and config = None
                    and st = "[example_row]" and selector = "[]" and lconfig = None]
  note lossy_create = error_kinds_of_the_services
                 [where repo = lossyRepo and data = example_data and cconfig = None
                    and st = "[]"]
  note mem_create = error_kinds_of_the_services
                 [where repo = "memRepo example_backend" and data = "[]" and cconfig = None
                    and st = "[]"]
  show "fst (CustomShippingOptionService_retrieve (memRepo example_backend) ''cso_9'' None
               [example_row])
     = Inl (MedusaError NOT_FOUND ''Custom shipping option with id: cso_9 was not found.'')"
    using mem [THEN conjunct1]
    by (simp add: memRepo_findOne buildQuery_def matches_id_selector example_row_def
        not_found_message_def)
  show "fst (CustomShippingOptionService_retrieve lossyRepo ''cso_'' None [example_row])
     = Inl (StorageFailure (ConnectionError ''connection lost''))"
    using lossy [THEN conjunct2, THEN conjunct2, THEN conjunct1, THEN spec,
                 of "ConnectionError ''connection lost''"]
    by (simp add: lossyRepo_def)
  show "fst (CustomShippingOptionService_list lossyRepo [] None [example_row])
     = Inl (StorageFailure (ConnectionError ''connection lost''))"
    using lossy [THEN conjunct2, THEN conjunct2, THEN conjunct2, THEN conjunct1, THEN spec,
                 of "StorageFailure (ConnectionError ''connection lost'')"]
    by (simp add: lossyRepo_def)
  show "fst (CustomShippingOptionService_create lossyRepo example_data None [])
     = Inl (StorageFailure (ConnectionError ''connection lost''))"
    using lossy_create [THEN conjunct2, THEN conjunct2, THEN conjunct2, THEN conjunct2,
                        THEN conjunct1, THEN spec,
                        of "StorageFailure (ConnectionError ''connection lost'')"]
    by (simp add: lossyRepo_def)
  show "fst (CustomShippingOptionService_create (memRepo example_backend) [] None [])
     = Inl (StorageFailure (ConstraintViolation ''custom_shipping_option''))"
    using mem_create [THEN conjunct2, THEN conjunct2, THEN conjunct2, THEN conjunct2,
                      THEN conjunct1, THEN spec,
                      of "StorageFailure (ConstraintViolation ''custom_shipping_option'')"]
    by (simp add: memRepo_save memRepo_create example_backend_def get_prop_def)
qed

end
